theory Spec2Isabelle
  imports Main "HOL-Library.Sublist"
begin

section \<open>Python values and exceptions\<close>

text \<open>
  The values that flow through \<^verbatim>\<open>helpers/disk.py\<close>: what \<^verbatim>\<open>json.loads\<close> builds
  (\<^verbatim>\<open>None\<close>, booleans, integers, strings, lists, dictionaries with string keys) and what
  the methods return. A dictionary keeps its insertion order, so it is an association
  list; a lookup takes the first binding of a key.
\<close>

datatype pyval =
    PNone
  | PBool bool
  | PInt int
  | PStr string
  | PList "pyval list"
  | PDict "(string \<times> pyval) list"

text \<open>
  The exceptions the module raises or lets through. \<^verbatim>\<open>DiskError\<close> carries its
  positional arguments, \<^verbatim>\<open>OSError\<close> the errno and the message. \<^verbatim>\<open>ValueError\<close> stands
  for a failed \<^verbatim>\<open>decode\<close> or \<^verbatim>\<open>json.loads\<close> (both raise subclasses of it).
\<close>

datatype error =
    DiskError "string list"
  | OSError nat string
  | KeyError string
  | TypeError
  | ValueError

text \<open>Truth value of a Python object, as \<^verbatim>\<open>if x:\<close> tests it.\<close>

fun truthy :: "pyval \<Rightarrow> bool" where
  "truthy PNone = False"
| "truthy (PBool b) = b"
| "truthy (PInt i) = (i \<noteq> 0)"
| "truthy (PStr s) = (s \<noteq> [])"
| "truthy (PList xs) = (xs \<noteq> [])"
| "truthy (PDict kvs) = (kvs \<noteq> [])"

text \<open>\<^verbatim>\<open>v[k]\<close> with a string key: only a dictionary can be indexed that way.\<close>

definition getitem :: "pyval \<Rightarrow> string \<Rightarrow> error + pyval" where
  "getitem v k =
     (case v of
        PDict kvs \<Rightarrow> (case map_of kvs k of None \<Rightarrow> Inl (KeyError k) | Some x \<Rightarrow> Inr x)
      | _ \<Rightarrow> Inl TypeError)"

text \<open>
  The items a \<^verbatim>\<open>for\<close> loop draws from a value: the elements of a list, the keys of a
  dictionary, the characters of a string; anything else is not iterable.
\<close>

definition iterate :: "pyval \<Rightarrow> error + pyval list" where
  "iterate v =
     (case v of
        PList xs \<Rightarrow> Inr xs
      | PDict kvs \<Rightarrow> Inr (map (\<lambda>kv. PStr (fst kv)) kvs)
      | PStr s \<Rightarrow> Inr (map (\<lambda>c. PStr [c]) s)
      | _ \<Rightarrow> Inl TypeError)"

text \<open>Decimal digits of an integer, as an f-string prints it.\<close>

fun digits :: "nat \<Rightarrow> string" where
  "digits n =
     (if n < 10 then [''0123456789'' ! n]
      else digits (n div 10) @ [''0123456789'' ! (n mod 10)])"

definition str_int :: "int \<Rightarrow> string" where
  "str_int i = (if i < 0 then CHR ''-'' # digits (nat (- i)) else digits (nat i))"

text \<open>\<^verbatim>\<open>os.path.basename\<close>: what follows the last slash.\<close>

definition basename :: "string \<Rightarrow> string" where
  "basename p = rev (takeWhile (\<lambda>c. c \<noteq> CHR ''/'') (rev p))"

section \<open>The host: commands, links, the mount call\<close>

text \<open>
  Everything the module does to the machine is recorded as an event, in order: a shell
  command handed to \<^verbatim>\<open>sys_command\<close>, or a call of \<^verbatim>\<open>libc.mount\<close> with its five
  arguments.
\<close>

datatype event =
    Command string
  | Mount string string string nat string

record cmd_result =
  out_bytes :: string
  exit_code :: int

text \<open>
  The host holds the events so far and says how the machine answers. Each answer is a
  function of the whole history, the event being answered last, so the theorems below
  hold for every behaviour of the external tools.

  \<^item> \<open>cmd_reply\<close>: the joined output (\<^verbatim>\<open>b''.join(...)\<close>) and the \<^verbatim>\<open>exit_code\<close> of the
    command just run. The \<^verbatim>\<open>hide_from_log\<close> option of \<^verbatim>\<open>sys_command\<close> only concerns
    logging and is left out.
  \<^item> \<open>link_at\<close>: \<^verbatim>\<open>os.path.islink\<close> at this point of the history.
  \<^item> \<open>mount_reply\<close>: the return value of \<^verbatim>\<open>libc.mount\<close> and the errno it leaves.
  \<^item> \<open>json_loads\<close>: \<^verbatim>\<open>json.loads(bytes.decode('UTF_8'))\<close>, \<open>None\<close> when either step
    raises.
  \<^item> \<open>abspath\<close>, \<open>strerror\<close>: \<^verbatim>\<open>os.path.abspath\<close> (it depends on the working
    directory) and \<^verbatim>\<open>os.strerror\<close>.
  \<^item> \<open>container_str\<close>: \<^verbatim>\<open>str()\<close> of a list or dictionary.
\<close>

record host =
  events :: "event list"
  cmd_reply :: "event list \<Rightarrow> cmd_result"
  link_at :: "event list \<Rightarrow> string \<Rightarrow> bool"
  mount_reply :: "event list \<Rightarrow> int \<times> nat"
  json_loads :: "string \<Rightarrow> pyval option"
  abspath :: "string \<Rightarrow> string"
  strerror :: "nat \<Rightarrow> string"
  container_str :: "pyval \<Rightarrow> string"

text \<open>A computation either raises or returns, and leaves a host behind.\<close>

type_synonym 'a io = "host \<Rightarrow> (error + 'a) \<times> host"

definition io_return :: "'a \<Rightarrow> 'a io" where
  "io_return x h = (Inr x, h)"

definition io_raise :: "error \<Rightarrow> 'a io" where
  "io_raise e h = (Inl e, h)"

definition io_bind :: "'a io \<Rightarrow> ('a \<Rightarrow> 'b io) \<Rightarrow> 'b io" where
  "io_bind m f h = (case m h of (Inl e, h') \<Rightarrow> (Inl e, h') | (Inr x, h') \<Rightarrow> f x h')"

text \<open>
  Modelled from the spec: \<^verbatim>\<open>sys_command\<close> is imported from \<^verbatim>\<open>helpers/general.py\<close>,
  which is missing from the sources. The specification's command executor runs the
  command when called, returns its whole output and exit code, and raises nothing of
  its own; so here the call adds the command to the events and returns the host's reply.
\<close>

definition sys_command :: "string \<Rightarrow> cmd_result io" where
  "sys_command cmd h =
     (let h' = h\<lparr>events := events h @ [Command cmd]\<rparr>
      in (Inr (cmd_reply h' (events h')), h'))"

definition os_path_islink :: "string \<Rightarrow> bool io" where
  "os_path_islink p h = (Inr (link_at h (events h) p), h)"

definition os_path_abspath :: "string \<Rightarrow> string io" where
  "os_path_abspath p h = (Inr (abspath h p), h)"

definition libc_mount :: "string \<Rightarrow> string \<Rightarrow> string \<Rightarrow> nat \<Rightarrow> string \<Rightarrow> (int \<times> nat) io" where
  "libc_mount source target fs flags options h =
     (let h' = h\<lparr>events := events h @ [Mount source target fs flags options]\<rparr>
      in (Inr (mount_reply h' (events h')), h'))"

text \<open>What an f-string puts in place of \<^verbatim>\<open>{v}\<close>.\<close>

definition py_str :: "pyval \<Rightarrow> string io" where
  "py_str v h =
     (Inr (case v of
             PStr s \<Rightarrow> s
           | PNone \<Rightarrow> ''None''
           | PBool b \<Rightarrow> (if b then ''True'' else ''False'')
           | PInt i \<Rightarrow> str_int i
           | _ \<Rightarrow> container_str h v), h)"

section \<open>BlockDevice\<close>

record BlockDevice =
  path :: string
  info :: "string \<rightharpoonup> pyval"

text \<open>
  The loop of \<^verbatim>\<open>device\<close> over the loop-device table: skip every entry whose name is not
  the path, return the back-file of the first that is. When the table is exhausted the
  method falls off its end, which returns \<^verbatim>\<open>None\<close>.
\<close>

fun find_back_file :: "string \<Rightarrow> pyval list \<Rightarrow> error + pyval" where
  "find_back_file p [] = Inr PNone"
| "find_back_file p (drive # rest) =
     (case getitem drive ''name'' of
        Inl e \<Rightarrow> Inl e
      | Inr n \<Rightarrow>
          if \<not> n = PStr p then find_back_file p rest
          else getitem drive ''back-file'')"

definition device :: "BlockDevice \<Rightarrow> pyval io" where
  \<open>device self =
     (case info self ''type'' of
        None \<Rightarrow>
          io_raise (DiskError [''Could not locate backplane info for "''
                               @ BlockDevice.path self @ ''"''])
      | Some t \<Rightarrow>
          if t = PStr ''loop'' then
            io_bind (sys_command ''losetup --json'') (\<lambda>r h.
              case json_loads h (out_bytes r) of
                None \<Rightarrow> (Inl ValueError, h)
              | Some j \<Rightarrow>
                  (case getitem j ''loopdevices'' of
                     Inl e \<Rightarrow> (Inl e, h)
                   | Inr ds \<Rightarrow>
                       (case iterate ds of
                          Inl e \<Rightarrow> (Inl e, h)
                        | Inr drives \<Rightarrow> (find_back_file (BlockDevice.path self) drives, h))))
          else if t = PStr ''disk'' then
            io_return (PStr (BlockDevice.path self))
          else if t = PStr ''crypt'' then
            (case info self ''pkname'' of
               None \<Rightarrow>
                 io_raise (DiskError [''A crypt device ('' @ BlockDevice.path self
                                      @ '') without a parent kernel device name.''])
             | Some pk \<Rightarrow> io_bind (py_str pk) (\<lambda>s. io_return (PStr (''/dev/'' @ s))))
          else io_return PNone)\<close>

section \<open>Filesystem: the partition-table session\<close>

definition GPT :: int where
  "GPT = 1"

record Filesystem =
  blockdevice :: BlockDevice
  mode :: int

record luks2 =
  luks2_filesystem :: Filesystem

definition Filesystem_enter :: "Filesystem \<Rightarrow> Filesystem io" where
  "Filesystem_enter self =
     (if mode self = GPT then
        io_bind (device (blockdevice self)) (\<lambda>d.
        io_bind (py_str d) (\<lambda>ds.
        io_bind (sys_command (''/usr/bin/parted -s '' @ ds @ '' mklabel gpt'')) (\<lambda>r.
          if exit_code r = 0 then io_return self
          else
            io_bind (device (blockdevice self)) (\<lambda>d2.
            io_bind (py_str d2) (\<lambda>ds2.
            io_raise (DiskError [''Problem setting the partition format to GPT:'',
                                 ''/usr/bin/parted -s '' @ ds2 @ '' mklabel gpt'']))))))
      else io_raise (DiskError [''Unknown mode selected to format in: '' @ str_int (mode self)]))"

text \<open>
  \<^verbatim>\<open>__exit__\<close> receives the exception of the body, if any, runs \<^verbatim>\<open>sync\<close> and returns
  \<^verbatim>\<open>None\<close>.
\<close>

definition Filesystem_exit :: "Filesystem \<Rightarrow> error option \<Rightarrow> pyval io" where
  "Filesystem_exit self exc = io_bind (sys_command ''sync'') (\<lambda>out. io_return PNone)"

definition raw_parted :: "Filesystem \<Rightarrow> string \<Rightarrow> cmd_result io" where
  "raw_parted self string = sys_command (''/usr/bin/parted -s '' @ string)"

definition parted :: "Filesystem \<Rightarrow> string \<Rightarrow> int io" where
  "parted self string = io_bind (raw_parted self string) (\<lambda>x. io_return (exit_code x))"

text \<open>
  \<^verbatim>\<open>if format:\<close> holds for a non-empty string only; \<open>None\<close> and the empty string take the
  \<^verbatim>\<open>else\<close> branch.
\<close>

definition add_partition ::
    "Filesystem \<Rightarrow> string \<Rightarrow> string \<Rightarrow> string \<Rightarrow> string option \<Rightarrow> bool io" where
  "add_partition self type' start end' format' =
     (case format' of
        Some (c # cs) \<Rightarrow>
          io_bind (device (blockdevice self)) (\<lambda>d.
          io_bind (py_str d) (\<lambda>ds.
          io_bind (parted self (ds @ '' mkpart '' @ type' @ '' '' @ (c # cs) @ '' '' @ start
                                @ '' '' @ end')) (\<lambda>rc.
          io_return (rc = 0))))
      | _ \<Rightarrow>
          io_bind (device (blockdevice self)) (\<lambda>d.
          io_bind (py_str d) (\<lambda>ds.
          io_bind (parted self (ds @ '' mkpart '' @ type' @ '' '' @ start @ '' '' @ end')) (\<lambda>rc.
          io_return (rc = 0)))))"

definition set_name :: "Filesystem \<Rightarrow> int \<Rightarrow> string \<Rightarrow> bool io" where
  \<open>set_name self partition' name =
     io_bind (device (blockdevice self)) (\<lambda>d.
     io_bind (py_str d) (\<lambda>ds.
     io_bind (parted self (ds @ '' name '' @ str_int (partition' + 1) @ '' "'' @ name @ ''"''))
       (\<lambda>rc.
     io_return (rc = 0))))\<close>

definition set_flag :: "Filesystem \<Rightarrow> int \<Rightarrow> string \<Rightarrow> bool io" where
  "set_flag self partition' string =
     io_bind (device (blockdevice self)) (\<lambda>d.
     io_bind (py_str d) (\<lambda>ds.
     io_bind (parted self (ds @ '' set '' @ str_int (partition' + 1) @ '' '' @ string)) (\<lambda>rc.
     io_return (rc = 0))))"

definition use_entire_disk :: "Filesystem \<Rightarrow> string option \<Rightarrow> unit io" where
  "use_entire_disk self prep_mode =
     io_bind (add_partition self ''primary'' ''1MiB'' ''513MiB'' (Some ''fat32'')) (\<lambda>r1.
     io_bind (set_name self 0 ''EFI'') (\<lambda>r2.
     io_bind (set_flag self 0 ''boot on'') (\<lambda>r3.
     io_bind (set_flag self 0 ''esp on'') (\<lambda>r4.
       if prep_mode = Some ''luks2'' then
         io_bind (add_partition self ''primary'' ''513MiB'' ''100%'' None) (\<lambda>r5. io_return ())
       else
         io_bind (add_partition self ''primary'' ''1MiB'' ''513MiB'' (Some ''ext4''))
           (\<lambda>r5. io_return ())))))"

text \<open>
  The \<^verbatim>\<open>with\<close> statement: \<^verbatim>\<open>__enter__\<close>, the body, then \<^verbatim>\<open>__exit__\<close> with the body's
  exception or with nothing. An exception of the body is swallowed only when
  \<^verbatim>\<open>__exit__\<close> returns a true value (the block then yields \<open>None\<close>); an exception of
  \<^verbatim>\<open>__exit__\<close> itself takes the place of the body's; when \<^verbatim>\<open>__enter__\<close> raises,
  neither the body nor \<^verbatim>\<open>__exit__\<close> runs.
\<close>

definition with_stmt ::
    "'m io \<Rightarrow> ('m \<Rightarrow> error option \<Rightarrow> pyval io) \<Rightarrow> ('m \<Rightarrow> 'a io) \<Rightarrow> 'a option io" where
  "with_stmt enter exit body h =
     (case enter h of
        (Inl e, h1) \<Rightarrow> (Inl e, h1)
      | (Inr m, h1) \<Rightarrow>
          (case body m h1 of
             (Inr r, h2) \<Rightarrow>
               (case exit m None h2 of
                  (Inl e, h3) \<Rightarrow> (Inl e, h3)
                | (Inr s, h3) \<Rightarrow> (Inr (Some r), h3))
           | (Inl e, h2) \<Rightarrow>
               (case exit m (Some e) h2 of
                  (Inl e', h3) \<Rightarrow> (Inl e', h3)
                | (Inr s, h3) \<Rightarrow> if truthy s then (Inr None, h3) else (Inl e, h3))))"

section \<open>Partition\<close>

record Partition =
  path :: string
  part_id :: string
  mountpoint :: "string option"
  filesystem :: "string option"
  size_attr :: pyval

text \<open>\<^verbatim>\<open>Partition(path, part_id=None, size=-1)\<close>: a false \<open>part_id\<close> becomes the basename.\<close>

definition Partition_init :: "string \<Rightarrow> string option \<Rightarrow> pyval \<Rightarrow> Partition" where
  "Partition_init p pid sz =
     \<lparr>path = p,
      part_id = (case pid of Some (c # cs) \<Rightarrow> c # cs | _ \<Rightarrow> basename p),
      mountpoint = None,
      filesystem = None,
      size_attr = sz\<rparr>"

text \<open>
  A method that assigns to \<^verbatim>\<open>self\<close> returns the partition next to the host. The result
  of \<^verbatim>\<open>format\<close> is \<^verbatim>\<open>True\<close>, \<^verbatim>\<open>False\<close> or \<^verbatim>\<open>None\<close>.
\<close>

definition format :: "Partition \<Rightarrow> string \<Rightarrow> host \<Rightarrow> (error + pyval) \<times> Partition \<times> host" where
  "format self fs h =
     (if fs = ''btrfs'' then
        (case sys_command (''/usr/bin/mkfs.btrfs -f '' @ path self) h of
           (Inl e, h') \<Rightarrow> (Inl e, self, h')
         | (Inr r, h') \<Rightarrow>
             if \<not> sublist ''UUID'' (out_bytes r) then (Inr (PBool False), self, h')
             else (Inr (PBool True), self\<lparr>filesystem := Some ''btrfs''\<rparr>, h'))
      else if fs = ''fat32'' then
        (case sys_command (''/usr/bin/mkfs.vfat -F32 '' @ path self) h of
           (Inl e, h') \<Rightarrow> (Inl e, self, h')
         | (Inr r, h') \<Rightarrow>
             if (\<not> sublist ''mkfs.fat'' (out_bytes r) \<and> \<not> sublist ''mkfs.vfat'' (out_bytes r))
                \<or> sublist ''command not found'' (out_bytes r)
             then (Inr PNone, self, h')
             else (Inr (PBool True), self, h'))
      else
        (Inl (DiskError [''Fileformat '' @ fs @ '' is not yet implemented.'']), self, h))"

text \<open>
  Lines 111 to 115 of \<^verbatim>\<open>mount\<close>, once the filesystem kind is settled: the call of
  \<^verbatim>\<open>libc.mount\<close> with zero flags, the \<^verbatim>\<open>OSError\<close> on a negative return, the
  mountpoint recorded otherwise.
\<close>

definition mount_call ::
    "Partition \<Rightarrow> string \<Rightarrow> string \<Rightarrow> string \<Rightarrow> host \<Rightarrow> (error + unit) \<times> Partition \<times> host" where
  "mount_call self target fs options h =
     (case libc_mount (path self) target fs 0 options h of
        (Inl e, h') \<Rightarrow> (Inl e, self, h')
      | (Inr (ret, errno), h') \<Rightarrow>
          if ret < 0 then
            (Inl (OSError errno
                    (''Error mounting '' @ path self @ '' ('' @ fs @ '') on '' @ target
                     @ '' with options '' @ [CHR 0x27] @ options @ [CHR 0x27] @ '': ''
                     @ strerror h' errno)),
             self, h')
          else (Inr (), self\<lparr>mountpoint := Some target\<rparr>, h'))"

text \<open>
  \<^verbatim>\<open>if not fs\<close> and \<^verbatim>\<open>if not self.filesystem\<close>: a kind counts when it is a non-empty
  string.
\<close>

definition mount ::
    "Partition \<Rightarrow> string \<Rightarrow> string option \<Rightarrow> string \<Rightarrow> host
       \<Rightarrow> (error + unit) \<times> Partition \<times> host" where
  "mount self target fs options h =
     (case fs of
        Some (c # cs) \<Rightarrow> mount_call self target (c # cs) options h
      | _ \<Rightarrow>
          (case filesystem self of
             Some (c # cs) \<Rightarrow> mount_call self target (c # cs) options h
           | _ \<Rightarrow>
               (Inl (DiskError [''Need to format (or define) the filesystem before mounting.'']),
                self, h)))"

section \<open>luks2\<close>

text \<open>
  Line 152 computes the basename of a mountpoint that holds a slash and drops it: the
  name used afterwards is the one passed in.
\<close>

definition unlock :: "luks2 \<Rightarrow> Partition \<Rightarrow> string \<Rightarrow> string \<Rightarrow> Partition option io" where
  "unlock self partition' mountpoint' key_file =
     (let dropped = (if CHR ''/'' \<in> set mountpoint' then Some (basename mountpoint') else None)
      in io_bind (os_path_abspath key_file) (\<lambda>kf.
         io_bind (sys_command (''/usr/bin/cryptsetup open '' @ path partition' @ '' '' @ mountpoint'
                               @ '' --key-file '' @ kf @ '' --type luks2'')) (\<lambda>out.
         io_bind (os_path_islink (''/dev/mapper/'' @ mountpoint')) (\<lambda>l.
           if l then io_return (Some (Partition_init (''/dev/mapper/'' @ mountpoint') None (PInt (- 1))))
           else io_return None))))"

definition close :: "luks2 \<Rightarrow> string \<Rightarrow> bool io" where
  "close self mountpoint' =
     io_bind (sys_command (''cryptsetup close /dev/mapper/'' @ mountpoint')) (\<lambda>out.
     io_bind (os_path_islink (''/dev/mapper/'' @ mountpoint')) (\<lambda>l.
     io_return (l = False)))"


section \<open>Stating what a host did\<close>

text \<open>
  The host after one more command, and what that command prints when it is the next
  one to run.
\<close>

definition host_after :: "host \<Rightarrow> string \<Rightarrow> host" where
  "host_after h cmd = h\<lparr>events := events h @ [Command cmd]\<rparr>"

definition tool_output :: "host \<Rightarrow> string \<Rightarrow> string" where
  "tool_output h cmd = out_bytes (cmd_reply h (events h @ [Command cmd]))"

text \<open>The \<^verbatim>\<open>parted\<close> calls on a device, one per argument string.\<close>

definition parted_on :: "string \<Rightarrow> string list \<Rightarrow> event list" where
  "parted_on dev args = map (\<lambda>a. Command (''/usr/bin/parted -s '' @ dev @ '' '' @ a)) args"

text \<open>The command line \<^verbatim>\<open>unlock\<close> builds from its arguments.\<close>

definition unlock_cmd :: "host \<Rightarrow> Partition \<Rightarrow> string \<Rightarrow> string \<Rightarrow> string" where
  "unlock_cmd h partition' mountpoint' key_file =
     ''/usr/bin/cryptsetup open '' @ path partition' @ '' '' @ mountpoint' @ '' --key-file ''
     @ abspath h key_file @ '' --type luks2''"

text \<open>
  An entry of the loop-device table that the loop of \<^verbatim>\<open>device\<close> passes over: a
  dictionary whose \<^verbatim>\<open>name\<close> is not the path looked for.
\<close>

definition other_entry :: "string \<Rightarrow> pyval \<Rightarrow> bool" where
  "other_entry p drive =
     (case getitem drive ''name'' of Inl e \<Rightarrow> False | Inr n \<Rightarrow> n \<noteq> PStr p)"

section \<open>Concrete inputs\<close>

text \<open>
  A host with nothing done yet, on which every command prints the same text and exits
  with zero, every link test gives the same answer and \<^verbatim>\<open>json.loads\<close> the same value.
\<close>

definition test_host :: "string \<Rightarrow> bool \<Rightarrow> pyval option \<Rightarrow> host" where
  "test_host out link table =
     \<lparr>events = [],
      cmd_reply = (\<lambda>es. \<lparr>out_bytes = out, exit_code = 0\<rparr>),
      link_at = (\<lambda>es p. link),
      mount_reply = (\<lambda>es. (0, 0)),
      json_loads = (\<lambda>s. table),
      abspath = (\<lambda>p. p),
      strerror = (\<lambda>n. ''error''),
      container_str = (\<lambda>v. ''?'')\<rparr>"

text \<open>
  Block devices as \<^verbatim>\<open>lsblk\<close> lists them: a disk, an opened LUKS mapping, a loop device,
  an optical drive, and one built by hand with an empty \<open>info\<close>.
\<close>

definition sda :: BlockDevice where
  "sda = \<lparr>BlockDevice.path = ''/dev/sda'', info = [''type'' \<mapsto> PStr ''disk'']\<rparr>"

definition luksdev :: BlockDevice where
  "luksdev = \<lparr>BlockDevice.path = ''/dev/mapper/luksdev'',
              info = [''type'' \<mapsto> PStr ''crypt'', ''pkname'' \<mapsto> PStr ''sda2'']\<rparr>"

definition loop3 :: BlockDevice where
  "loop3 = \<lparr>BlockDevice.path = ''/dev/loop3'', info = [''type'' \<mapsto> PStr ''loop'']\<rparr>"

definition sr0 :: BlockDevice where
  "sr0 = \<lparr>BlockDevice.path = ''/dev/sr0'', info = [''type'' \<mapsto> PStr ''rom'']\<rparr>"

definition untyped :: BlockDevice where
  "untyped = \<lparr>BlockDevice.path = ''/dev/sdz'', info = Map.empty\<rparr>"

text \<open>What \<^verbatim>\<open>losetup --json\<close> parses to when only \<^verbatim>\<open>/dev/loop0\<close> is set up.\<close>

definition loop0_entry :: pyval where
  "loop0_entry =
     PDict [(''name'', PStr ''/dev/loop0''), (''sizelimit'', PInt 0),
            (''autoclear'', PBool False), (''back-file'', PStr ''/tmp/disk.img'')]"

definition loop_table :: pyval where
  "loop_table = PDict [(''loopdevices'', PList [loop0_entry])]"

definition sda_session :: Filesystem where
  "sda_session = \<lparr>blockdevice = sda, mode = GPT\<rparr>"

definition sda_luks :: luks2 where
  "sda_luks = \<lparr>luks2_filesystem = sda_session\<rparr>"

definition sda1 :: Partition where
  "sda1 = Partition_init ''/dev/sda1'' None (PInt (- 1))"

definition sda2 :: Partition where
  "sda2 = Partition_init ''/dev/sda2'' None (PInt (- 1))"

section \<open>Basic facts\<close>

lemma sys_command_host_after:
  "sys_command cmd h = (Inr (cmd_reply h (events h @ [Command cmd])), host_after h cmd)"
  by (simp add: sys_command_def host_after_def Let_def)

lemma out_bytes_cmd_reply:
  "out_bytes (cmd_reply h (events h @ [Command cmd])) = tool_output h cmd"
  by (simp add: tool_output_def)

lemma tool_output_test_host: "tool_output (test_host out l t) cmd = out"
  by (simp add: tool_output_def test_host_def)

lemma path_sda1: "path sda1 = ''/dev/sda1''"
  by (simp add: sda1_def Partition_init_def)

lemma filesystem_sda1: "filesystem sda1 = None"
  by (simp add: sda1_def Partition_init_def)

lemma str_int_1: "str_int 1 = ''1''"
  by (simp add: str_int_def)

text \<open>Python's \<^verbatim>\<open>needle in haystack\<close> on bytes is the contiguous-sublist test used here.\<close>

lemma sublist_is_substring: "sublist needle hay \<longleftrightarrow> (\<exists>before after. hay = before @ needle @ after)"
  by (simp add: sublist_def)

lemma device_disk:
  "info bd ''type'' = Some (PStr ''disk'') \<Longrightarrow>
     device bd h = (Inr (PStr (BlockDevice.path bd)), h)"
  by (simp add: device_def io_return_def)

lemma device_untyped:
  \<open>device untyped h =
     (Inl (DiskError [''Could not locate backplane info for "/dev/sdz"'']), h)\<close>
  by (simp add: device_def untyped_def io_raise_def)

lemma parted_eq:
  "parted fs s h =
     (Inr (exit_code (cmd_reply h (events h @ [Command (''/usr/bin/parted -s '' @ s)]))),
      host_after h (''/usr/bin/parted -s '' @ s))"
  by (simp add: parted_def raw_parted_def io_bind_def io_return_def sys_command_host_after)

section \<open>BlockDevice.device\<close>

text \<open>
  C3. For a device whose \<open>info\<close> has type \<^verbatim>\<open>'disk'\<close>, \<^verbatim>\<open>device\<close> returns the path
  unchanged; for type \<^verbatim>\<open>'crypt'\<close> with a parent kernel name \<open>pkname\<close> it returns
  \<^verbatim>\<open>'/dev/'\<close> followed by that name; when \<open>info\<close> has no \<^verbatim>\<open>'type'\<close> key it raises
  \<^verbatim>\<open>DiskError\<close>. None of the three runs a command.
\<close>

theorem device_by_type:
  \<open>(info bd ''type'' = Some (PStr ''disk'') \<longrightarrow>
      device bd h = (Inr (PStr (BlockDevice.path bd)), h))
   \<and> (info bd ''type'' = Some (PStr ''crypt'') \<and> info bd ''pkname'' = Some (PStr pkname) \<longrightarrow>
      device bd h = (Inr (PStr (''/dev/'' @ pkname)), h))
   \<and> (info bd ''type'' = None \<longrightarrow>
      device bd h =
        (Inl (DiskError [''Could not locate backplane info for "'' @ BlockDevice.path bd @ ''"'']),
         h))\<close>
  by (simp add: device_def io_return_def io_raise_def io_bind_def py_str_def)

theorem device_by_type_witness:
  \<open>device sda (test_host [] False None) = (Inr (PStr ''/dev/sda''), test_host [] False None)
   \<and> device luksdev (test_host [] False None) =
       (Inr (PStr ''/dev/sda2''), test_host [] False None)
   \<and> device untyped (test_host [] False None) =
       (Inl (DiskError [''Could not locate backplane info for "/dev/sdz"'']),
        test_host [] False None)\<close>
  using device_by_type [of sda "test_host [] False None" "''sda2''"]
    device_by_type [of luksdev "test_host [] False None" "''sda2''"]
    device_by_type [of untyped "test_host [] False None" "''sda2''"]
  by (simp add: sda_def luksdev_def untyped_def)

text \<open>The loop over the table ends without a match when every entry is another device's.\<close>

lemma find_back_file_other:
  "list_all (other_entry p) drives \<Longrightarrow> find_back_file p drives = Inr PNone"
proof (induction drives)
  case Nil
  show ?case by simp
next
  case (Cons d ds)
  then show ?case
    by (auto simp: other_entry_def split: sum.splits)
qed

text \<open>
  C10. A device of type \<^verbatim>\<open>'loop'\<close> whose path is the name of no entry of the loop-device
  table (the parsed output of \<^verbatim>\<open>losetup --json\<close>, a list of entries under
  \<^verbatim>\<open>'loopdevices'\<close>), and a device whose type is a string other than \<^verbatim>\<open>'loop'\<close>,
  \<^verbatim>\<open>'disk'\<close> and \<^verbatim>\<open>'crypt'\<close>: \<^verbatim>\<open>device\<close> returns \<^verbatim>\<open>None\<close> and raises nothing.
\<close>

theorem device_none_when_unmatched:
  \<open>(info bd ''type'' = Some (PStr ''loop'')
      \<and> json_loads h (tool_output h ''losetup --json'') = Some table
      \<and> getitem table ''loopdevices'' = Inr (PList drives)
      \<and> list_all (other_entry (BlockDevice.path bd)) drives \<longrightarrow>
      device bd h = (Inr PNone, host_after h ''losetup --json''))
   \<and> (info bd ''type'' = Some (PStr t) \<and> t \<noteq> ''loop'' \<and> t \<noteq> ''disk'' \<and> t \<noteq> ''crypt'' \<longrightarrow>
      device bd h = (Inr PNone, h))\<close>
proof (intro conjI impI)
  assume a: \<open>info bd ''type'' = Some (PStr ''loop'')
      \<and> json_loads h (tool_output h ''losetup --json'') = Some table
      \<and> getitem table ''loopdevices'' = Inr (PList drives)
      \<and> list_all (other_entry (BlockDevice.path bd)) drives\<close>
  then have f: "find_back_file (BlockDevice.path bd) drives = Inr PNone"
    by (simp add: find_back_file_other)
  have j: "json_loads (host_after h ''losetup --json'') = json_loads h"
    by (simp add: host_after_def)
  from a f j show \<open>device bd h = (Inr PNone, host_after h ''losetup --json'')\<close>
    by (simp add: device_def io_bind_def sys_command_host_after out_bytes_cmd_reply iterate_def)
next
  assume \<open>info bd ''type'' = Some (PStr t) \<and> t \<noteq> ''loop'' \<and> t \<noteq> ''disk'' \<and> t \<noteq> ''crypt''\<close>
  then show \<open>device bd h = (Inr PNone, h)\<close>
    by (simp add: device_def io_return_def)
qed

theorem device_none_when_unmatched_witness:
  \<open>list_all (other_entry ''/dev/loop3'') [loop0_entry]
   \<and> device loop3 (test_host ''{"loopdevices": [...]}'' False (Some loop_table)) =
       (Inr PNone,
        host_after (test_host ''{"loopdevices": [...]}'' False (Some loop_table)) ''losetup --json'')
   \<and> device sr0 (test_host [] False None) = (Inr PNone, test_host [] False None)\<close>
proof -
  let ?h = \<open>test_host ''{"loopdevices": [...]}'' False (Some loop_table)\<close>
  have o: \<open>list_all (other_entry ''/dev/loop3'') [loop0_entry]\<close>
    by (simp add: other_entry_def getitem_def loop0_entry_def)
  have g: \<open>getitem loop_table ''loopdevices'' = Inr (PList [loop0_entry])\<close>
    by (simp add: loop_table_def getitem_def)
  have l: \<open>json_loads ?h s = Some loop_table\<close> for s
    by (simp add: test_host_def)
  show ?thesis
    using device_none_when_unmatched
        [where bd = loop3 and h = ?h and table = loop_table and drives = \<open>[loop0_entry]\<close>
           and t = \<open>''rom''\<close>]
      device_none_when_unmatched
        [where bd = sr0 and h = \<open>test_host [] False None\<close> and table = loop_table
           and drives = \<open>[loop0_entry]\<close> and t = \<open>''rom''\<close>]
      o g l
    by (simp add: loop3_def sr0_def)
qed

section \<open>Filesystem.use_entire_disk\<close>

text \<open>On a device of type \<^verbatim>\<open>'disk'\<close> each call is one \<^verbatim>\<open>parted\<close> command on its path.\<close>

lemma add_partition_disk:
  assumes "info (blockdevice fs) ''type'' = Some (PStr ''disk'')"
  shows "\<exists>ok. add_partition fs t s e (Some (c # cs)) h =
           (Inr ok, host_after h (''/usr/bin/parted -s '' @ BlockDevice.path (blockdevice fs)
                                  @ '' mkpart '' @ t @ '' '' @ (c # cs) @ '' '' @ s @ '' '' @ e))"
    and "\<exists>ok. add_partition fs t s e None h =
           (Inr ok, host_after h (''/usr/bin/parted -s '' @ BlockDevice.path (blockdevice fs)
                                  @ '' mkpart '' @ t @ '' '' @ s @ '' '' @ e))"
  using assms
  by (simp_all add: add_partition_def io_bind_def io_return_def device_disk py_str_def parted_eq)

lemma set_name_disk:
  assumes \<open>info (blockdevice fs) ''type'' = Some (PStr ''disk'')\<close>
  shows \<open>\<exists>ok. set_name fs i n h =
           (Inr ok, host_after h (''/usr/bin/parted -s '' @ BlockDevice.path (blockdevice fs)
                                  @ '' name '' @ str_int (i + 1) @ '' "'' @ n @ ''"''))\<close>
  using assms
  by (simp add: set_name_def io_bind_def io_return_def device_disk py_str_def parted_eq)

lemma set_flag_disk:
  assumes "info (blockdevice fs) ''type'' = Some (PStr ''disk'')"
  shows "\<exists>ok. set_flag fs i s h =
           (Inr ok, host_after h (''/usr/bin/parted -s '' @ BlockDevice.path (blockdevice fs)
                                  @ '' set '' @ str_int (i + 1) @ '' '' @ s))"
  using assms
  by (simp add: set_flag_def io_bind_def io_return_def device_disk py_str_def parted_eq)

text \<open>
  C2. On a disk, \<^verbatim>\<open>use_entire_disk('luks2')\<close> runs five \<^verbatim>\<open>parted\<close> commands, two of
  them \<^verbatim>\<open>mkpart\<close>: the boot partition (fat32, 1MiB to 513MiB, named EFI, flags boot and
  esp on) and a second one with no filesystem kind from 513MiB to 100%. With any other
  \<open>prep_mode\<close>, \<^verbatim>\<open>None\<close> included, the first four commands are the same and the second
  \<^verbatim>\<open>mkpart\<close> asks for ext4 from 1MiB to 513MiB: the bounds of the boot partition itself,
  not a region after it.
\<close>

theorem use_entire_disk_commands:
  assumes \<open>info (blockdevice fs) ''type'' = Some (PStr ''disk'')\<close>
  shows \<open>use_entire_disk fs (Some ''luks2'') h =
           (Inr (), h\<lparr>events := events h @ parted_on (BlockDevice.path (blockdevice fs))
              [''mkpart primary fat32 1MiB 513MiB'',
               ''name 1 "EFI"'',
               ''set 1 boot on'',
               ''set 1 esp on'',
               ''mkpart primary 513MiB 100%'']\<rparr>)
       \<and> (pm \<noteq> Some ''luks2'' \<longrightarrow>
          use_entire_disk fs pm h =
           (Inr (), h\<lparr>events := events h @ parted_on (BlockDevice.path (blockdevice fs))
              [''mkpart primary fat32 1MiB 513MiB'',
               ''name 1 "EFI"'',
               ''set 1 boot on'',
               ''set 1 esp on'',
               ''mkpart primary ext4 1MiB 513MiB'']\<rparr>))\<close>
proof -
  define p where \<open>p = ''/usr/bin/parted -s '' @ BlockDevice.path (blockdevice fs)\<close>
  define h1 where \<open>h1 = host_after h (p @ '' mkpart primary fat32 1MiB 513MiB'')\<close>
  define h2 where \<open>h2 = host_after h1 (p @ '' name 1 "EFI"'')\<close>
  define h3 where \<open>h3 = host_after h2 (p @ '' set 1 boot on'')\<close>
  define h4 where \<open>h4 = host_after h3 (p @ '' set 1 esp on'')\<close>
  define h5 where \<open>h5 = host_after h4 (p @ '' mkpart primary 513MiB 100%'')\<close>
  define h6 where \<open>h6 = host_after h4 (p @ '' mkpart primary ext4 1MiB 513MiB'')\<close>
  obtain ok1 where s1:
    \<open>add_partition fs ''primary'' ''1MiB'' ''513MiB'' (Some ''fat32'') h = (Inr ok1, h1)\<close>
    using add_partition_disk(1)
      [OF assms, of "''primary''" "''1MiB''" "''513MiB''" "CHR ''f''" "''at32''" h]
    by (auto simp: h1_def p_def)
  obtain ok2 where s2: \<open>set_name fs 0 ''EFI'' h1 = (Inr ok2, h2)\<close>
    using set_name_disk [OF assms, of 0 "''EFI''" h1] by (auto simp: str_int_1 h2_def p_def)
  obtain ok3 where s3: \<open>set_flag fs 0 ''boot on'' h2 = (Inr ok3, h3)\<close>
    using set_flag_disk [OF assms, of 0 "''boot on''" h2] by (auto simp: str_int_1 h3_def p_def)
  obtain ok4 where s4: \<open>set_flag fs 0 ''esp on'' h3 = (Inr ok4, h4)\<close>
    using set_flag_disk [OF assms, of 0 "''esp on''" h3] by (auto simp: str_int_1 h4_def p_def)
  obtain ok5 where s5:
    \<open>add_partition fs ''primary'' ''513MiB'' ''100%'' None h4 = (Inr ok5, h5)\<close>
    using add_partition_disk(2) [OF assms, of "''primary''" "''513MiB''" "''100%''" h4]
    by (auto simp: h5_def p_def)
  obtain ok6 where s6:
    \<open>add_partition fs ''primary'' ''1MiB'' ''513MiB'' (Some ''ext4'') h4 = (Inr ok6, h6)\<close>
    using add_partition_disk(1)
      [OF assms, of "''primary''" "''1MiB''" "''513MiB''" "CHR ''e''" "''xt4''" h4]
    by (auto simp: h6_def p_def)
  have a: \<open>use_entire_disk fs (Some ''luks2'') h = (Inr (), h5)\<close>
    by (simp add: use_entire_disk_def io_bind_def io_return_def s1 s2 s3 s4 s5)
  have b: \<open>use_entire_disk fs pm h = (Inr (), h6)\<close> if \<open>pm \<noteq> Some ''luks2''\<close>
    using that by (simp add: use_entire_disk_def io_bind_def io_return_def s1 s2 s3 s4 s6)
  have e5: \<open>h5 = h\<lparr>events := events h @ parted_on (BlockDevice.path (blockdevice fs))
              [''mkpart primary fat32 1MiB 513MiB'', ''name 1 "EFI"'', ''set 1 boot on'',
               ''set 1 esp on'', ''mkpart primary 513MiB 100%'']\<rparr>\<close>
    by (simp add: h5_def h4_def h3_def h2_def h1_def p_def host_after_def parted_on_def)
  have e6: \<open>h6 = h\<lparr>events := events h @ parted_on (BlockDevice.path (blockdevice fs))
              [''mkpart primary fat32 1MiB 513MiB'', ''name 1 "EFI"'', ''set 1 boot on'',
               ''set 1 esp on'', ''mkpart primary ext4 1MiB 513MiB'']\<rparr>\<close>
    by (simp add: h6_def h4_def h3_def h2_def h1_def p_def host_after_def parted_on_def)
  show ?thesis
    using a b e5 e6 by simp
qed

theorem use_entire_disk_commands_witness:
  \<open>info (blockdevice sda_session) ''type'' = Some (PStr ''disk'')
   \<and> events (snd (use_entire_disk sda_session (Some ''luks2'') (test_host [] False None))) =
       [Command ''/usr/bin/parted -s /dev/sda mkpart primary fat32 1MiB 513MiB'',
        Command ''/usr/bin/parted -s /dev/sda name 1 "EFI"'',
        Command ''/usr/bin/parted -s /dev/sda set 1 boot on'',
        Command ''/usr/bin/parted -s /dev/sda set 1 esp on'',
        Command ''/usr/bin/parted -s /dev/sda mkpart primary 513MiB 100%'']
   \<and> events (snd (use_entire_disk sda_session None (test_host [] False None))) =
       [Command ''/usr/bin/parted -s /dev/sda mkpart primary fat32 1MiB 513MiB'',
        Command ''/usr/bin/parted -s /dev/sda name 1 "EFI"'',
        Command ''/usr/bin/parted -s /dev/sda set 1 boot on'',
        Command ''/usr/bin/parted -s /dev/sda set 1 esp on'',
        Command ''/usr/bin/parted -s /dev/sda mkpart primary ext4 1MiB 513MiB'']\<close>
proof -
  have t: \<open>info (blockdevice sda_session) ''type'' = Some (PStr ''disk'')\<close>
    by (simp add: sda_session_def sda_def)
  have d: \<open>BlockDevice.path (blockdevice sda_session) = ''/dev/sda''\<close>
    by (simp add: sda_session_def sda_def)
  show ?thesis
    using use_entire_disk_commands [OF t, of "test_host [] False None" None] t
    by (simp add: d parted_on_def test_host_def)
qed

section \<open>Leaving the session\<close>

text \<open>
  C6. \<^verbatim>\<open>Filesystem.__exit__\<close> runs \<^verbatim>\<open>sync\<close> and returns \<^verbatim>\<open>None\<close>, whatever it is
  handed. So a \<^verbatim>\<open>with Filesystem(...)\<close> block that was entered ends with a \<^verbatim>\<open>sync\<close>
  on both paths: when the body raises, the block raises the same exception; when the
  body returns, the block returns its value.
\<close>

theorem session_exit_syncs_and_propagates:
  \<open>Filesystem_exit fs exc h = (Inr PNone, host_after h ''sync'')
   \<and> (Filesystem_enter fs h = (Inr m, h1) \<and> body m h1 = (Inl e, h2) \<longrightarrow>
        with_stmt (Filesystem_enter fs) Filesystem_exit body h =
          (Inl e, host_after h2 ''sync''))
   \<and> (Filesystem_enter fs h = (Inr m, h1) \<and> body m h1 = (Inr r, h2) \<longrightarrow>
        with_stmt (Filesystem_enter fs) Filesystem_exit body h =
          (Inr (Some r), host_after h2 ''sync''))\<close>
proof -
  have x: \<open>Filesystem_exit s a g = (Inr PNone, host_after g ''sync'')\<close> for s a g
    by (simp add: Filesystem_exit_def io_bind_def io_return_def sys_command_host_after)
  show ?thesis
    by (simp add: x with_stmt_def)
qed

lemma enter_sda:
  \<open>Filesystem_enter sda_session (test_host [] False None) =
     (Inr sda_session,
      host_after (test_host [] False None) ''/usr/bin/parted -s /dev/sda mklabel gpt'')\<close>
  by (simp add: Filesystem_enter_def sda_session_def GPT_def io_bind_def io_return_def
      device_disk sda_def py_str_def sys_command_host_after test_host_def)

theorem session_exit_syncs_and_propagates_witness:
  \<open>with_stmt (Filesystem_enter sda_session) Filesystem_exit (\<lambda>m. device untyped)
       (test_host [] False None) =
     (Inl (DiskError [''Could not locate backplane info for "/dev/sdz"'']),
      (test_host [] False None)\<lparr>events :=
         [Command ''/usr/bin/parted -s /dev/sda mklabel gpt'', Command ''sync'']\<rparr>)
   \<and> with_stmt (Filesystem_enter sda_session) Filesystem_exit (\<lambda>m. device (blockdevice m))
       (test_host [] False None) =
     (Inr (Some (PStr ''/dev/sda'')),
      (test_host [] False None)\<lparr>events :=
         [Command ''/usr/bin/parted -s /dev/sda mklabel gpt'', Command ''sync'']\<rparr>)\<close>
proof -
  let ?h = \<open>test_host [] False None\<close>
  let ?h1 = \<open>host_after ?h ''/usr/bin/parted -s /dev/sda mklabel gpt''\<close>
  have b: \<open>device (blockdevice sda_session) ?h1 = (Inr (PStr ''/dev/sda''), ?h1)\<close>
    by (simp add: device_disk sda_session_def sda_def)
  have e: \<open>host_after ?h1 ''sync'' = ?h\<lparr>events :=
         [Command ''/usr/bin/parted -s /dev/sda mklabel gpt'', Command ''sync'']\<rparr>\<close>
    by (simp add: host_after_def test_host_def)
  show ?thesis
    using session_exit_syncs_and_propagates
        [where fs = sda_session and h = ?h and m = sda_session and ?h1.0 = ?h1
           and body = \<open>\<lambda>m. device untyped\<close> and ?h2.0 = ?h1
           and e = \<open>DiskError [''Could not locate backplane info for "/dev/sdz"'']\<close>]
      session_exit_syncs_and_propagates
        [where fs = sda_session and h = ?h and m = sda_session and ?h1.0 = ?h1
           and body = \<open>\<lambda>m. device (blockdevice m)\<close> and ?h2.0 = ?h1
           and r = \<open>PStr ''/dev/sda''\<close>]
      enter_sda device_untyped [of ?h1] b e
    by simp
qed

section \<open>Partition.mount\<close>

text \<open>
  C4. A partition whose \<open>filesystem\<close> attribute is unset, mounted with no \<open>fs\<close> argument:
  \<^verbatim>\<open>mount\<close> raises \<^verbatim>\<open>DiskError\<close>; the host is the one it started from, so
  \<^verbatim>\<open>libc.mount\<close> was not called (no event was added), and the partition, its mountpoint
  included, is the one it started from.
\<close>

theorem mount_unformatted_raises:
  assumes "filesystem self = None"
  shows "mount self target None options h =
           (Inl (DiskError [''Need to format (or define) the filesystem before mounting.'']),
            self, h)"
  using assms by (simp add: mount_def)

theorem mount_unformatted_raises_witness:
  "filesystem sda1 = None \<and>
   mount sda1 ''/mnt'' None [] (test_host [] False None) =
     (Inl (DiskError [''Need to format (or define) the filesystem before mounting.'']),
      sda1, test_host [] False None)"
proof -
  have f: "filesystem sda1 = None"
    by (rule filesystem_sda1)
  from mount_unformatted_raises [OF f, of "''/mnt''" "[]" "test_host [] False None"] f
  show ?thesis by simp
qed

text \<open>\<^verbatim>\<open>mount\<close> never assigns the \<open>filesystem\<close> attribute.\<close>

lemma mount_keeps_filesystem:
  assumes "mount self target fs options h = (r, self', h')"
  shows "filesystem self' = filesystem self"
proof -
  have c: "filesystem (fst (snd (mount_call self target k options h))) = filesystem self" for k
    by (simp add: mount_call_def libc_mount_def Let_def split: prod.splits)
  have "filesystem (fst (snd (mount self target fs options h))) = filesystem self"
    by (simp add: mount_def c split: option.splits list.splits)
  with assms show ?thesis by simp
qed

section \<open>Partition.format\<close>

text \<open>
  C5. \<^verbatim>\<open>format\<close> is a three-way case analysis on the requested kind.
  For \<^verbatim>\<open>'btrfs'\<close> it runs \<^verbatim>\<open>mkfs.btrfs\<close>: when the output holds \<^verbatim>\<open>UUID\<close> it returns
  \<^verbatim>\<open>True\<close> and sets \<open>filesystem\<close> to \<^verbatim>\<open>'btrfs'\<close>; when it does not, it returns \<^verbatim>\<open>False\<close>
  and leaves the partition alone. For \<^verbatim>\<open>'fat32'\<close> it runs \<^verbatim>\<open>mkfs.vfat\<close>: when the output
  holds neither \<^verbatim>\<open>mkfs.fat\<close> nor \<^verbatim>\<open>mkfs.vfat\<close>, or holds \<^verbatim>\<open>command not found\<close>, it
  returns \<^verbatim>\<open>None\<close>; otherwise \<^verbatim>\<open>True\<close>. For any other kind it raises \<^verbatim>\<open>DiskError\<close>
  without running anything.
\<close>

theorem format_three_way:
  "(sublist ''UUID'' (tool_output h (''/usr/bin/mkfs.btrfs -f '' @ path self)) \<longrightarrow>
      format self ''btrfs'' h =
        (Inr (PBool True), self\<lparr>filesystem := Some ''btrfs''\<rparr>,
         host_after h (''/usr/bin/mkfs.btrfs -f '' @ path self)))
   \<and> (\<not> sublist ''UUID'' (tool_output h (''/usr/bin/mkfs.btrfs -f '' @ path self)) \<longrightarrow>
      format self ''btrfs'' h =
        (Inr (PBool False), self, host_after h (''/usr/bin/mkfs.btrfs -f '' @ path self)))
   \<and> ((\<not> sublist ''mkfs.fat'' (tool_output h (''/usr/bin/mkfs.vfat -F32 '' @ path self))
        \<and> \<not> sublist ''mkfs.vfat'' (tool_output h (''/usr/bin/mkfs.vfat -F32 '' @ path self)))
       \<or> sublist ''command not found'' (tool_output h (''/usr/bin/mkfs.vfat -F32 '' @ path self)) \<longrightarrow>
      format self ''fat32'' h =
        (Inr PNone, self, host_after h (''/usr/bin/mkfs.vfat -F32 '' @ path self)))
   \<and> ((sublist ''mkfs.fat'' (tool_output h (''/usr/bin/mkfs.vfat -F32 '' @ path self))
        \<or> sublist ''mkfs.vfat'' (tool_output h (''/usr/bin/mkfs.vfat -F32 '' @ path self)))
       \<and> \<not> sublist ''command not found'' (tool_output h (''/usr/bin/mkfs.vfat -F32 '' @ path self)) \<longrightarrow>
      format self ''fat32'' h =
        (Inr (PBool True), self, host_after h (''/usr/bin/mkfs.vfat -F32 '' @ path self)))
   \<and> (fs \<noteq> ''btrfs'' \<and> fs \<noteq> ''fat32'' \<longrightarrow>
      format self fs h =
        (Inl (DiskError [''Fileformat '' @ fs @ '' is not yet implemented.'']), self, h))"
  by (simp add: format_def sys_command_host_after out_bytes_cmd_reply)

theorem format_three_way_witness:
  "format sda1 ''btrfs'' (test_host ''Label: (null) UUID: 0a1b'' False None) =
     (Inr (PBool True), sda1\<lparr>filesystem := Some ''btrfs''\<rparr>,
      host_after (test_host ''Label: (null) UUID: 0a1b'' False None)
        ''/usr/bin/mkfs.btrfs -f /dev/sda1'')
   \<and> format sda1 ''btrfs'' (test_host ''sh: command not found'' False None) =
     (Inr (PBool False), sda1,
      host_after (test_host ''sh: command not found'' False None)
        ''/usr/bin/mkfs.btrfs -f /dev/sda1'')
   \<and> format sda1 ''fat32'' (test_host ''sh: command not found'' False None) =
     (Inr PNone, sda1,
      host_after (test_host ''sh: command not found'' False None)
        ''/usr/bin/mkfs.vfat -F32 /dev/sda1'')
   \<and> format sda1 ''fat32'' (test_host ''mkfs.fat 4.2 (2021-01-31)'' False None) =
     (Inr (PBool True), sda1,
      host_after (test_host ''mkfs.fat 4.2 (2021-01-31)'' False None)
        ''/usr/bin/mkfs.vfat -F32 /dev/sda1'')
   \<and> format sda1 ''ext4'' (test_host [] False None) =
     (Inl (DiskError [''Fileformat ext4 is not yet implemented.'']), sda1, test_host [] False None)"
proof -
  have a: "sublist ''UUID'' ''Label: (null) UUID: 0a1b''"
    by (simp add: sublist_Cons_right)
  have b: "\<not> sublist ''UUID'' ''sh: command not found''"
    by (simp add: sublist_Cons_right)
  have c: "sublist ''command not found'' ''sh: command not found''"
    by (simp add: sublist_Cons_right)
  have d: "sublist ''mkfs.fat'' ''mkfs.fat 4.2 (2021-01-31)''"
    by (simp add: sublist_Cons_right)
  have e: "\<not> sublist ''command not found'' ''mkfs.fat 4.2 (2021-01-31)''"
    by (simp add: sublist_Cons_right)
  show ?thesis
    using format_three_way [of "test_host ''Label: (null) UUID: 0a1b'' False None" sda1 "''ext4''"]
      format_three_way [of "test_host ''sh: command not found'' False None" sda1 "''ext4''"]
      format_three_way [of "test_host ''mkfs.fat 4.2 (2021-01-31)'' False None" sda1 "''ext4''"]
      format_three_way [of "test_host [] False None" sda1 "''ext4''"]
    by (simp add: tool_output_test_host path_sda1 a b c d e)
qed

text \<open>
  Whatever it is asked and whatever the tool prints, \<^verbatim>\<open>format\<close> either leaves the
  partition as it was or has just succeeded with \<^verbatim>\<open>'btrfs'\<close>.
\<close>

lemma format_frame:
  assumes "format self fs h = (r, self', h')"
  shows "self' = self
         \<or> (fs = ''btrfs'' \<and> r = Inr (PBool True) \<and> self' = self\<lparr>filesystem := Some ''btrfs''\<rparr>)"
  using assms
  by (auto simp: format_def sys_command_host_after split: if_splits)

lemma format_fat32_ok:
  "format sda1 ''fat32'' (test_host ''mkfs.fat 4.2 (2021-01-31)'' False None) =
     (Inr (PBool True), sda1,
      host_after (test_host ''mkfs.fat 4.2 (2021-01-31)'' False None)
        ''/usr/bin/mkfs.vfat -F32 /dev/sda1'')"
  by (simp add: format_def sys_command_host_after test_host_def path_sda1 sublist_Cons_right)

lemma format_btrfs_ok:
  "format sda1 ''btrfs'' (test_host ''Label: (null) UUID: 0a1b'' False None) =
     (Inr (PBool True), sda1\<lparr>filesystem := Some ''btrfs''\<rparr>,
      host_after (test_host ''Label: (null) UUID: 0a1b'' False None)
        ''/usr/bin/mkfs.btrfs -f /dev/sda1'')"
  by (simp add: format_def sys_command_host_after test_host_def path_sda1 sublist_Cons_right)

lemma mount_btrfs_ok:
  "mount (sda1\<lparr>filesystem := Some ''btrfs''\<rparr>) ''/mnt'' None [] (test_host [] False None) =
     (Inr (), sda1\<lparr>filesystem := Some ''btrfs'', mountpoint := Some ''/mnt''\<rparr>,
      (test_host [] False None)\<lparr>events := [Mount ''/dev/sda1'' ''/mnt'' ''btrfs'' 0 []]\<rparr>)"
proof -
  have r: "mount_reply (test_host [] False None) es = (0, 0)" for es
    by (simp add: test_host_def)
  have e: "events (test_host [] False None) = []"
    by (simp add: test_host_def)
  have c: "mount_call (sda1\<lparr>filesystem := Some ''btrfs''\<rparr>) ''/mnt'' ''btrfs'' []
             (test_host [] False None) =
     (Inr (), sda1\<lparr>filesystem := Some ''btrfs'', mountpoint := Some ''/mnt''\<rparr>,
      (test_host [] False None)\<lparr>events := [Mount ''/dev/sda1'' ''/mnt'' ''btrfs'' 0 []]\<rparr>)"
    by (simp add: mount_call_def libc_mount_def Let_def r e path_sda1)
  show ?thesis
    by (simp add: mount_def c)
qed

text \<open>
  C9. A \<^verbatim>\<open>'fat32'\<close> format that returns \<^verbatim>\<open>True\<close> leaves an unset \<open>filesystem\<close> attribute
  unset, so mounting that partition afterwards with no \<open>fs\<close> argument still raises
  \<^verbatim>\<open>DiskError\<close>. The attribute changes only in a \<^verbatim>\<open>'btrfs'\<close> format that returns
  \<^verbatim>\<open>True\<close>: no other call of \<^verbatim>\<open>format\<close> changes it, and \<^verbatim>\<open>mount\<close> never does.
\<close>

theorem fat32_leaves_filesystem_unset:
  "(filesystem self = None \<and> format self ''fat32'' h = (Inr (PBool True), self', h') \<longrightarrow>
      filesystem self' = None
      \<and> mount self' target None options h' =
          (Inl (DiskError [''Need to format (or define) the filesystem before mounting.'']),
           self', h'))
   \<and> (format self fs h = (r, self', h') \<and> filesystem self' \<noteq> filesystem self \<longrightarrow>
      fs = ''btrfs'' \<and> r = Inr (PBool True) \<and> filesystem self' = Some ''btrfs'')
   \<and> (mount self target fso options h = (rm, self', h') \<longrightarrow>
      filesystem self' = filesystem self)"
proof (intro conjI impI)
  assume a: "filesystem self = None \<and> format self ''fat32'' h = (Inr (PBool True), self', h')"
  then have "self' = self"
    using format_frame [of self "''fat32''" h "Inr (PBool True)" self' h'] by simp
  with a show "filesystem self' = None" by simp
  then show "mount self' target None options h' =
          (Inl (DiskError [''Need to format (or define) the filesystem before mounting.'']),
           self', h')"
    by (simp add: mount_def)
next
  assume b: "format self fs h = (r, self', h') \<and> filesystem self' \<noteq> filesystem self"
  then have c: "fs = ''btrfs'' \<and> r = Inr (PBool True)
                \<and> self' = self\<lparr>filesystem := Some ''btrfs''\<rparr>"
    using format_frame [of self fs h r self' h'] by auto
  from c show "fs = ''btrfs''" by simp
  from c show "r = Inr (PBool True)" by simp
  from c show "filesystem self' = Some ''btrfs''" by simp
next
  assume "mount self target fso options h = (rm, self', h')"
  then show "filesystem self' = filesystem self"
    by (rule mount_keeps_filesystem)
qed

theorem fat32_leaves_filesystem_unset_witness:
  "filesystem sda1 = None
   \<and> format sda1 ''fat32'' (test_host ''mkfs.fat 4.2 (2021-01-31)'' False None) =
       (Inr (PBool True), sda1,
        host_after (test_host ''mkfs.fat 4.2 (2021-01-31)'' False None)
          ''/usr/bin/mkfs.vfat -F32 /dev/sda1'')
   \<and> mount sda1 ''/mnt/boot'' None []
        (host_after (test_host ''mkfs.fat 4.2 (2021-01-31)'' False None)
           ''/usr/bin/mkfs.vfat -F32 /dev/sda1'') =
       (Inl (DiskError [''Need to format (or define) the filesystem before mounting.'']),
        sda1,
        host_after (test_host ''mkfs.fat 4.2 (2021-01-31)'' False None)
          ''/usr/bin/mkfs.vfat -F32 /dev/sda1'')
   \<and> format sda1 ''btrfs'' (test_host ''Label: (null) UUID: 0a1b'' False None) =
       (Inr (PBool True), sda1\<lparr>filesystem := Some ''btrfs''\<rparr>,
        host_after (test_host ''Label: (null) UUID: 0a1b'' False None)
          ''/usr/bin/mkfs.btrfs -f /dev/sda1'')
   \<and> filesystem (sda1\<lparr>filesystem := Some ''btrfs''\<rparr>) = Some ''btrfs''
   \<and> filesystem (sda1\<lparr>filesystem := Some ''btrfs'', mountpoint := Some ''/mnt''\<rparr>) =
       filesystem (sda1\<lparr>filesystem := Some ''btrfs''\<rparr>)"
proof -
  let ?hf = "test_host ''mkfs.fat 4.2 (2021-01-31)'' False None"
  let ?hf' = "host_after ?hf ''/usr/bin/mkfs.vfat -F32 /dev/sda1''"
  let ?hb = "test_host ''Label: (null) UUID: 0a1b'' False None"
  let ?hb' = "host_after ?hb ''/usr/bin/mkfs.btrfs -f /dev/sda1''"
  let ?b = "sda1\<lparr>filesystem := Some ''btrfs''\<rparr>"
  have p1: "filesystem sda1 = None \<and> format sda1 ''fat32'' ?hf = (Inr (PBool True), sda1, ?hf')"
    using filesystem_sda1 format_fat32_ok by (rule conjI)
  have c1: "filesystem sda1 = None
      \<and> mount sda1 ''/mnt/boot'' None [] ?hf' =
          (Inl (DiskError [''Need to format (or define) the filesystem before mounting.'']),
           sda1, ?hf')"
    using p1
    by (rule fat32_leaves_filesystem_unset
        [where self = sda1 and h = ?hf and self' = sda1 and h' = ?hf'
           and target = "''/mnt/boot''" and options = "[]",
         THEN conjunct1, THEN mp])
  have ne: "filesystem ?b \<noteq> filesystem sda1"
    by (simp add: filesystem_sda1)
  have p2: "format sda1 ''btrfs'' ?hb = (Inr (PBool True), ?b, ?hb')
            \<and> filesystem ?b \<noteq> filesystem sda1"
    using format_btrfs_ok ne by (rule conjI)
  have c2: "''btrfs'' = ''btrfs'' \<and> Inr (PBool True) = (Inr (PBool True) :: error + pyval)
            \<and> filesystem ?b = Some ''btrfs''"
    using p2
    by (rule fat32_leaves_filesystem_unset
        [where self = sda1 and h = ?hb and self' = ?b and h' = ?hb'
           and fs = "''btrfs''" and r = "Inr (PBool True)",
         THEN conjunct2, THEN conjunct1, THEN mp])
  have c3: "filesystem (sda1\<lparr>filesystem := Some ''btrfs'', mountpoint := Some ''/mnt''\<rparr>) =
       filesystem ?b"
    using mount_btrfs_ok
    by (rule fat32_leaves_filesystem_unset
        [where self = ?b and h = "test_host [] False None" and target = "''/mnt''"
           and fso = None and options = "[]" and rm = "Inr ()",
         THEN conjunct2, THEN conjunct2, THEN mp])
  from p1 c1 format_btrfs_ok c2 c3 show ?thesis
    by blast
qed

section \<open>luks2.unlock and luks2.close\<close>

text \<open>
  \<^verbatim>\<open>unlock\<close> in one equation: it runs the command with the mountpoint as given and
  answers by the link test made afterwards.
\<close>

lemma unlock_eq:
  "unlock self p m k h =
     (if link_at h (events h @ [Command (unlock_cmd h p m k)]) (''/dev/mapper/'' @ m)
      then Inr (Some (Partition_init (''/dev/mapper/'' @ m) None (PInt (- 1))))
      else Inr None,
      host_after h (unlock_cmd h p m k))"
  by (simp add: unlock_def unlock_cmd_def io_bind_def io_return_def os_path_abspath_def
      os_path_islink_def sys_command_host_after host_after_def)

lemma unlock_cmd_test:
  "unlock_cmd (test_host out l t) sda2 ''luksdev'' ''/tmp/sda.disk_pw'' =
     ''/usr/bin/cryptsetup open /dev/sda2 luksdev --key-file /tmp/sda.disk_pw --type luks2''"
  by (simp add: unlock_cmd_def test_host_def sda2_def Partition_init_def)

text \<open>
  C7. When \<^verbatim>\<open>/dev/mapper/<mountpoint>\<close> is a link after the unlock command has run,
  \<^verbatim>\<open>unlock\<close> returns a new partition whose path is exactly that (no mountpoint, no
  filesystem); when it is not, \<^verbatim>\<open>unlock\<close> returns \<^verbatim>\<open>None\<close> and raises nothing. In both
  cases exactly the unlock command was run.
\<close>

theorem unlock_returns_mapped_partition:
  "(link_at h (events h @ [Command (unlock_cmd h p m k)]) (''/dev/mapper/'' @ m) \<longrightarrow>
      (\<exists>new. unlock self p m k h = (Inr (Some new), host_after h (unlock_cmd h p m k))
             \<and> path new = ''/dev/mapper/'' @ m
             \<and> mountpoint new = None \<and> filesystem new = None))
   \<and> (\<not> link_at h (events h @ [Command (unlock_cmd h p m k)]) (''/dev/mapper/'' @ m) \<longrightarrow>
      unlock self p m k h = (Inr None, host_after h (unlock_cmd h p m k)))"
  by (simp add: unlock_eq Partition_init_def)

theorem unlock_returns_mapped_partition_witness:
  "(\<exists>new. unlock sda_luks sda2 ''luksdev'' ''/tmp/sda.disk_pw'' (test_host [] True None) =
            (Inr (Some new),
             host_after (test_host [] True None)
               ''/usr/bin/cryptsetup open /dev/sda2 luksdev --key-file /tmp/sda.disk_pw --type luks2'')
          \<and> path new = ''/dev/mapper/luksdev'')
   \<and> unlock sda_luks sda2 ''luksdev'' ''/tmp/sda.disk_pw'' (test_host [] False None) =
       (Inr None,
        host_after (test_host [] False None)
          ''/usr/bin/cryptsetup open /dev/sda2 luksdev --key-file /tmp/sda.disk_pw --type luks2'')"
proof -
  have t: "link_at (test_host [] True None) es q" for es q
    by (simp add: test_host_def)
  have f: "\<not> link_at (test_host [] False None) es q" for es q
    by (simp add: test_host_def)
  show ?thesis
    using unlock_returns_mapped_partition
        [of "test_host [] True None" sda2 "''luksdev''" "''/tmp/sda.disk_pw''" sda_luks]
      unlock_returns_mapped_partition
        [of "test_host [] False None" sda2 "''luksdev''" "''/tmp/sda.disk_pw''" sda_luks]
    by (auto simp: t f unlock_cmd_test)
qed

text \<open>
  C1. A mountpoint that holds a slash is not rejected. At \<^verbatim>\<open>unlock(sda2, 'vault/root',
  '/tmp/sda.disk_pw')\<close> the call raises nothing, runs \<^verbatim>\<open>cryptsetup open\<close> with the name
  \<^verbatim>\<open>vault/root\<close> as it was passed, tests \<^verbatim>\<open>/dev/mapper/vault/root\<close> and returns a
  partition on that path: the basename computed on line 152 is dropped.
\<close>

theorem unlock_keeps_slash_in_mountpoint:
  "CHR ''/'' \<in> set ''vault/root''
   \<and> unlock sda_luks sda2 ''vault/root'' ''/tmp/sda.disk_pw'' (test_host [] True None) =
       (Inr (Some (Partition_init ''/dev/mapper/vault/root'' None (PInt (- 1)))),
        host_after (test_host [] True None)
          ''/usr/bin/cryptsetup open /dev/sda2 vault/root --key-file /tmp/sda.disk_pw --type luks2'')"
  by (simp add: unlock_eq unlock_cmd_def test_host_def sda2_def Partition_init_def host_after_def)

text \<open>
  C8. \<^verbatim>\<open>close\<close> runs the teardown command and returns \<^verbatim>\<open>True\<close> exactly when
  \<^verbatim>\<open>/dev/mapper/<mountpoint>\<close> is no link afterwards, \<^verbatim>\<open>False\<close> when it still is.
\<close>

theorem close_true_iff_link_gone:
  "close self m h =
     (Inr (\<not> link_at h (events h @ [Command (''cryptsetup close /dev/mapper/'' @ m)])
                 (''/dev/mapper/'' @ m)),
      host_after h (''cryptsetup close /dev/mapper/'' @ m))"
  by (simp add: close_def io_bind_def io_return_def os_path_islink_def
      sys_command_host_after host_after_def)

theorem close_true_iff_link_gone_witness:
  "close sda_luks ''luksdev'' (test_host [] False None) =
     (Inr True, host_after (test_host [] False None) ''cryptsetup close /dev/mapper/luksdev'')
   \<and> close sda_luks ''luksdev'' (test_host [] True None) =
     (Inr False, host_after (test_host [] True None) ''cryptsetup close /dev/mapper/luksdev'')"
  using close_true_iff_link_gone [of sda_luks "''luksdev''" "test_host [] False None"]
    close_true_iff_link_gone [of sda_luks "''luksdev''" "test_host [] True None"]
  by (simp add: test_host_def)

end
